theory Spec2Isabelle
  imports Complex_Main
begin

section \<open>The landfill transport model of app32.py\<close>

text \<open>
  The script reads its parameters from sidebar controls, derives the grid, allocates the
  arrays \<open>C\<close>, \<open>B\<close> and \<open>gas\<close>, and fills them row by row in one loop. The embedding
  below follows the script line by line. Python floats are modelled as exact reals: the
  rounding of IEEE arithmetic, overflow and the non-finite values \<open>inf\<close> and \<open>nan\<close> are
  outside the model. NumPy's elementwise division does not raise; where a denominator is
  zero NumPy yields a non-finite value, which has no counterpart here. Python's own
  float division, \<open>np.linspace\<close>, \<open>np.gradient\<close> and indexing do raise, and every such
  raise is an \<open>Inl\<close> branch of the model.
\<close>

datatype py_error = ValueError | ZeroDivisionError | IndexError

subsection \<open>Monod kinetics (lines 55-56)\<close>

definition monod :: "real \<Rightarrow> real \<Rightarrow> real \<Rightarrow> real \<Rightarrow> real" where
  "monod C B mu_max Ks = mu_max * C / (Ks + C) * B"

subsection \<open>Parameters and state\<close>

text \<open>
  The values returned by the sidebar controls. The two integer sliders return Python
  ints, the others floats. The field for the script's \<open>length\<close> carries a suffix.
\<close>

record config =
  length_m :: int
  time_days :: int
  velocity :: real
  dispersion :: real
  rainfall_rate :: real
  infiltration_coeff :: real
  liner_thickness :: real
  liner_perm :: real
  sorption_kd :: real
  initial_conc :: real
  initial_biomass :: real
  mu_max :: real
  Ks :: real
  biogas_yield :: real

text \<open>The arrays the loop writes, one row per time step.\<close>

record state =
  C :: "real list list"
  B :: "real list list"
  gas :: "real list"

text \<open>
  What the script holds when the loop has finished: the coordinate arrays \<open>x\<close> and \<open>t\<close>
  (the fields carry a suffix) and the three state arrays. The script's \<open>X\<close> and \<open>T\<close>
  from \<open>np.meshgrid\<close> are never read again and are left out.
\<close>

record result =
  x_grid :: "real list"
  t_grid :: "real list"
  final :: state

subsection \<open>Python and NumPy primitives\<close>

text \<open>Sequencing: a raised error ends the run, a value is passed on.\<close>

definition on_value :: "py_error + 'a \<Rightarrow> ('a \<Rightarrow> py_error + 'b) \<Rightarrow> py_error + 'b" where
  "on_value r f = (case r of Inl e \<Rightarrow> Inl e | Inr v \<Rightarrow> f v)"

text \<open>Python's \<open>/\<close> on floats raises on a zero divisor.\<close>

definition py_truediv :: "real \<Rightarrow> real \<Rightarrow> py_error + real" where
  "py_truediv a b = (if b = 0 then Inl ZeroDivisionError else Inr (a / b))"

text \<open>Python's \<open>int\<close> on a float truncates toward zero.\<close>

definition py_int :: "real \<Rightarrow> int" where
  "py_int v = (if 0 \<le> v then \<lfloor>v\<rfloor> else \<lceil>v\<rceil>)"

text \<open>
  \<open>np.linspace(start, stop, num)\<close>: \<open>num\<close> evenly spaced samples with both endpoints;
  a negative \<open>num\<close> raises.
\<close>

definition np_linspace :: "real \<Rightarrow> real \<Rightarrow> int \<Rightarrow> py_error + real list" where
  "np_linspace start stop num =
     (if num < 0 then Inl ValueError
      else if num = 1 then Inr [start]
      else Inr (map (\<lambda>i. start + real i * ((stop - start) / real (nat num - 1)))
                  [0..<nat num]))"

text \<open>\<open>np.zeros\<close> for one and two dimensions; a negative dimension raises.\<close>

definition np_zeros :: "int \<Rightarrow> py_error + real list" where
  "np_zeros n = (if n < 0 then Inl ValueError else Inr (replicate (nat n) 0))"

definition np_zeros2 :: "int \<Rightarrow> int \<Rightarrow> py_error + real list list" where
  "np_zeros2 r c =
     (if r < 0 \<or> c < 0 then Inl ValueError
      else Inr (replicate (nat r) (replicate (nat c) 0)))"

text \<open>
  \<open>np.gradient(f, h)\<close> on a one-dimensional array with uniform spacing \<open>h\<close>: central
  differences in the interior, first-order one-sided differences at the two ends; an
  array of fewer than two elements raises.
\<close>

definition gradient_at :: "real list \<Rightarrow> real \<Rightarrow> nat \<Rightarrow> real" where
  "gradient_at f h i =
     (if i = 0 then (f ! 1 - f ! 0) / h
      else if i = length f - 1 then (f ! (length f - 1) - f ! (length f - 2)) / h
      else (f ! (i + 1) - f ! (i - 1)) / (2 * h))"

definition np_gradient :: "real list \<Rightarrow> real \<Rightarrow> py_error + real list" where
  "np_gradient f h =
     (if length f < 2 then Inl ValueError
      else Inr (map (gradient_at f h) [0..<length f]))"

text \<open>
  Assignment to one element of a one-dimensional array; a negative index counts from the
  end and an index out of range raises.
\<close>

definition set_item :: "real list \<Rightarrow> int \<Rightarrow> real \<Rightarrow> py_error + real list" where
  "set_item a i v =
     (let n = int (length a); j = (if i < 0 then n + i else i)
      in if 0 \<le> j \<and> j < n then Inr (a[nat j := v]) else Inl IndexError)"

definition get_item :: "real list \<Rightarrow> int \<Rightarrow> py_error + real" where
  "get_item a i =
     (let n = int (length a); j = (if i < 0 then n + i else i)
      in if 0 \<le> j \<and> j < n then Inr (a ! nat j) else Inl IndexError)"

text \<open>
  Assignment of a whole row of a two-dimensional array: \<open>A[i, :] = row\<close> with \<open>i \<ge> 0\<close>;
  a row index out of range raises.
\<close>

definition set_row :: "real list list \<Rightarrow> nat \<Rightarrow> real list \<Rightarrow> py_error + real list list" where
  "set_row A i row = (if i < length A then Inr (A[i := row]) else Inl IndexError)"

text \<open>
  Elementwise array arithmetic and the scalar broadcasts the update uses. Every array of
  one pass has the length of the grid, so NumPy's shape check never fires there and the
  model pairs the entries of two arrays position by position.
\<close>

definition vadd :: "real list \<Rightarrow> real list \<Rightarrow> real list" where
  "vadd a b = map2 (+) a b"

definition vsub :: "real list \<Rightarrow> real list \<Rightarrow> real list" where
  "vsub a b = map2 (-) a b"

definition smul :: "real \<Rightarrow> real list \<Rightarrow> real list" where
  "smul k a = map (\<lambda>v. k * v) a"

definition muls :: "real list \<Rightarrow> real \<Rightarrow> real list" where
  "muls a k = map (\<lambda>v. v * k) a"

definition divs :: "real list \<Rightarrow> real \<Rightarrow> real list" where
  "divs a k = map (\<lambda>v. v / k) a"

definition np_maximum :: "real list \<Rightarrow> real \<Rightarrow> real list" where
  "np_maximum a k = map (\<lambda>v. max v k) a"

definition monod_v :: "real list \<Rightarrow> real list \<Rightarrow> real \<Rightarrow> real \<Rightarrow> real list" where
  "monod_v Cs Bs m k = map2 (\<lambda>c b. monod c b m k) Cs Bs"

subsection \<open>Grid and derived coefficients (lines 11-16, 27, 33)\<close>

definition dx :: real where
  "dx = 1"

definition dt :: real where
  "dt = 1"

definition nx :: "config \<Rightarrow> py_error + int" where
  "nx cfg = on_value (py_truediv (real_of_int (length_m cfg)) dx) (\<lambda>q. Inr (py_int q))"

definition t_steps :: "config \<Rightarrow> py_error + int" where
  "t_steps cfg = on_value (py_truediv (real_of_int (time_days cfg)) dt) (\<lambda>q. Inr (py_int q))"

definition rain_input :: "config \<Rightarrow> real" where
  "rain_input cfg = (rainfall_rate cfg / 1000) * infiltration_coeff cfg"

definition liner_leakage :: "config \<Rightarrow> py_error + real" where
  "liner_leakage cfg =
     on_value (py_truediv 1 (liner_thickness cfg)) (\<lambda>r. Inr (liner_perm cfg * r * dt * 86400))"

subsection \<open>One pass of the loop body (lines 60-82)\<close>

text \<open>
  \<open>step\<close> takes the grid size, the leakage coefficient and the previous rows of \<open>C\<close> and
  \<open>B\<close>, and returns the new rows together with the gas produced in the step.
\<close>

definition step ::
  "config \<Rightarrow> int \<Rightarrow> real \<Rightarrow> real list \<Rightarrow> real list
     \<Rightarrow> py_error + (real list \<times> real list \<times> real)" where
  "step cfg n_x leak Cprev Bprev =
     on_value (np_gradient Cprev dx) (\<lambda>dCdx.
     on_value (np_gradient dCdx dx) (\<lambda>d2Cdx2.
     on_value (np_zeros n_x) (\<lambda>z1.
     on_value (set_item z1 0 (rain_input cfg * 1000)) (\<lambda>infiltration_input.
     on_value (np_zeros n_x) (\<lambda>z2.
     on_value (get_item Cprev (- 1)) (\<lambda>c_last.
     on_value (set_item z2 (- 1) (leak * c_last)) (\<lambda>liner_loss.
      let C_mobile = divs Cprev (1 + sorption_kd cfg);
          growth = monod_v C_mobile Bprev (mu_max cfg) (Ks cfg);
          C1 = vsub (vadd (vsub Cprev (muls (smul (velocity cfg) dCdx) dt))
                          (muls (smul (dispersion cfg) d2Cdx2) dt))
                    (muls growth dt);
          C2 = vadd C1 (muls infiltration_input dt);
          C3 = vsub C2 liner_loss;
          C4 = np_maximum C3 0;
          Bn = vadd Bprev (muls growth dt);
          g = sum_list (muls (muls growth dt) (biogas_yield cfg))
      in Inr (C4, Bn, g))))))))"

text \<open>The body at index \<open>n\<close>: read row \<open>n - 1\<close>, write row \<open>n\<close> of each array.\<close>

definition body :: "config \<Rightarrow> int \<Rightarrow> real \<Rightarrow> nat \<Rightarrow> state \<Rightarrow> py_error + state" where
  "body cfg n_x leak n s =
     on_value (step cfg n_x leak (C s ! (n - 1)) (B s ! (n - 1))) (\<lambda>(Cn, Bn, g).
       Inr (s\<lparr>C := (C s)[n := Cn], B := (B s)[n := Bn],
              gas := (gas s)[n := gas s ! (n - 1) + g]\<rparr>))"

text \<open>\<open>for n in range(1, t_steps)\<close>: the body over the indices in increasing order.\<close>

fun loop :: "config \<Rightarrow> int \<Rightarrow> real \<Rightarrow> nat list \<Rightarrow> state \<Rightarrow> py_error + state" where
  "loop cfg n_x leak [] s = Inr s"
| "loop cfg n_x leak (n # ns) s =
     on_value (body cfg n_x leak n s) (\<lambda>s'. loop cfg n_x leak ns s')"

subsection \<open>The whole script (lines 11-82)\<close>

text \<open>
  Allocation and the initial rows (lines 48-52), in the script's order: \<open>C\<close>, \<open>B\<close>, the
  two initial rows, then \<open>gas\<close>. Writing row 0 of an array with no rows raises.
\<close>

definition initialize :: "config \<Rightarrow> int \<Rightarrow> int \<Rightarrow> py_error + state" where
  "initialize cfg n_t n_x =
     on_value (np_zeros2 n_t n_x) (\<lambda>C0.
     on_value (np_zeros2 n_t n_x) (\<lambda>B0.
     on_value (set_row C0 0 (replicate (nat n_x) (initial_conc cfg))) (\<lambda>C1.
     on_value (set_row B0 0 (replicate (nat n_x) (initial_biomass cfg))) (\<lambda>B1.
     on_value (np_zeros n_t) (\<lambda>g0.
       Inr \<lparr>C = C1, B = B1, gas = g0\<rparr>)))))"

text \<open>
  Lines 11-33: everything the script derives from the parameters before an array of the
  state is allocated.
\<close>

definition derive :: "config \<Rightarrow> py_error + (int \<times> int \<times> real list \<times> real list \<times> real)" where
  "derive cfg =
     on_value (nx cfg) (\<lambda>n_x.
     on_value (t_steps cfg) (\<lambda>n_t.
     on_value (np_linspace 0 (real_of_int (length_m cfg)) n_x) (\<lambda>xs.
     on_value (np_linspace 0 (real_of_int (time_days cfg)) n_t) (\<lambda>ts.
     on_value (liner_leakage cfg) (\<lambda>leak.
       Inr (n_x, n_t, xs, ts, leak))))))"

definition simulate :: "config \<Rightarrow> py_error + result" where
  "simulate cfg =
     on_value (derive cfg) (\<lambda>(n_x, n_t, xs, ts, leak).
     on_value (initialize cfg n_t n_x) (\<lambda>s0.
     on_value (loop cfg n_x leak [1..<nat n_t] s0) (\<lambda>s.
       Inr \<lparr>x_grid = xs, t_grid = ts, final = s\<rparr>)))"

section \<open>Node-by-node reading of a run\<close>

text \<open>The growth term of the update at node \<open>i\<close>: Monod on the mobile fraction.\<close>

definition growth_at :: "config \<Rightarrow> real list \<Rightarrow> real list \<Rightarrow> nat \<Rightarrow> real" where
  "growth_at cfg Cp Bp i =
     monod (Cp ! i / (1 + sorption_kd cfg)) (Bp ! i) (mu_max cfg) (Ks cfg)"

text \<open>
  The new concentration at node \<open>i\<close>, written node by node: previous value, advection,
  dispersion, growth, infiltration at node 0, liner loss at the last node, clamp at zero.
\<close>

definition conc_at :: "config \<Rightarrow> real \<Rightarrow> real list \<Rightarrow> real list \<Rightarrow> nat \<Rightarrow> real" where
  "conc_at cfg leak Cp Bp i =
     max (Cp ! i
          - velocity cfg * gradient_at Cp dx i * dt
          + dispersion cfg * gradient_at (map (gradient_at Cp dx) [0..<length Cp]) dx i * dt
          - growth_at cfg Cp Bp i * dt
          + (if i = 0 then rain_input cfg * 1000 else 0) * dt
          - (if i = length Cp - 1 then leak * Cp ! (length Cp - 1) else 0)) 0"

text \<open>The three arrays have \<open>T\<close> rows, and every row of \<open>C\<close> and \<open>B\<close> has \<open>N\<close> entries.\<close>

definition shaped :: "nat \<Rightarrow> nat \<Rightarrow> state \<Rightarrow> bool" where
  "shaped T N s \<longleftrightarrow>
     length (C s) = T \<and> length (B s) = T \<and> length (gas s) = T \<and>
     (\<forall>n<T. length (C s ! n) = N \<and> length (B s ! n) = N)"

text \<open>Row \<open>n\<close> of each array is what one pass computes from row \<open>n - 1\<close>.\<close>

definition follows :: "config \<Rightarrow> real \<Rightarrow> nat \<Rightarrow> state \<Rightarrow> nat \<Rightarrow> bool" where
  "follows cfg leak N s n \<longleftrightarrow>
     C s ! n = map (conc_at cfg leak (C s ! (n - 1)) (B s ! (n - 1))) [0..<N] \<and>
     B s ! n = map (\<lambda>i. B s ! (n - 1) ! i + growth_at cfg (C s ! (n - 1)) (B s ! (n - 1)) i * dt)
                 [0..<N] \<and>
     gas s ! n = gas s ! (n - 1) +
       (\<Sum>i\<leftarrow>[0..<N]. growth_at cfg (C s ! (n - 1)) (B s ! (n - 1)) i * dt * biogas_yield cfg)"

text \<open>The state after the pass at index \<open>n\<close>.\<close>

definition written :: "config \<Rightarrow> real \<Rightarrow> nat \<Rightarrow> nat \<Rightarrow> state \<Rightarrow> state" where
  "written cfg leak N n s =
     s\<lparr>C := (C s)[n := map (conc_at cfg leak (C s ! (n - 1)) (B s ! (n - 1))) [0..<N]],
       B := (B s)[n := map (\<lambda>i. B s ! (n - 1) ! i
                              + growth_at cfg (C s ! (n - 1)) (B s ! (n - 1)) i * dt) [0..<N]],
       gas := (gas s)[n := gas s ! (n - 1) +
                (\<Sum>i\<leftarrow>[0..<N]. growth_at cfg (C s ! (n - 1)) (B s ! (n - 1)) i * dt
                                  * biogas_yield cfg)]\<rparr>"

text \<open>The value of \<open>liner_leakage\<close> when the division does not raise.\<close>

definition leak_of :: "config \<Rightarrow> real" where
  "leak_of cfg = liner_perm cfg * (1 / liner_thickness cfg) * dt * 86400"

text \<open>The state after allocation and the two initial rows.\<close>

definition initial :: "config \<Rightarrow> nat \<Rightarrow> nat \<Rightarrow> state" where
  "initial cfg T N =
     \<lparr>C = (replicate T (replicate N 0))[0 := replicate N (initial_conc cfg)],
      B = (replicate T (replicate N 0))[0 := replicate N (initial_biomass cfg)],
      gas = replicate T 0\<rparr>"

text \<open>
  What a finished run looks like: the shape of the arrays, the initial rows, and every
  later row following from the one before it.
\<close>

definition traced :: "config \<Rightarrow> result \<Rightarrow> bool" where
  "traced cfg res \<longleftrightarrow>
     (let T = nat (time_days cfg); N = nat (length_m cfg); s = final res
      in shaped T N s \<and>
         C s ! 0 = replicate N (initial_conc cfg) \<and>
         B s ! 0 = replicate N (initial_biomass cfg) \<and>
         gas s ! 0 = 0 \<and>
         (\<forall>n. 1 \<le> n \<and> n < T \<longrightarrow> follows cfg (leak_of cfg) N s n))"

text \<open>
  A small run used to exercise the theorems: three nodes, three time steps, the sidebar
  defaults for the coefficients and a liner permeability of \<open>1e-6\<close>.
\<close>

definition demo :: config where
  "demo = \<lparr>length_m = 3, time_days = 3, velocity = 1 / 20, dispersion = 1 / 100,
     rainfall_rate = 10, infiltration_coeff = 1 / 2, liner_thickness = 1,
     liner_perm = 1 / 1000000, sorption_kd = 1, initial_conc = 100, initial_biomass = 50,
     mu_max = 1 / 10, Ks = 50, biogas_yield = 1 / 2\<rparr>"

text \<open>The arrays of that run.\<close>

definition demo_run :: result where
  "demo_run = \<lparr>x_grid = [0, 3 / 2, 3], t_grid = [0, 3 / 2, 3],
        final =
          \<lparr>C = [[100, 100, 100], [205 / 2, 195 / 2, 4443 / 50],
                [14185043 / 135000, 4702032 / 49375,
                 13342644163 / 168625000]],
             B = [[50, 50, 50], [105 / 2, 105 / 2, 105 / 2],
                  [5957 / 108, 17409 / 316, 296619 / 5396]],
             gas = [0, 15 / 4, 175169581 / 23019336]\<rparr>\<rparr>"

text \<open>
  The scenario of the specification, with the sidebar defaults for the coefficients it
  leaves open (infiltration coefficient, liner thickness, \<open>Ks\<close>, biogas yield).
\<close>

definition scenario :: config where
  "scenario = \<lparr>length_m = 10, time_days = 5, velocity = 1 / 20, dispersion = 1 / 100,
     rainfall_rate = 0, infiltration_coeff = 1 / 2, liner_thickness = 1, liner_perm = 0,
     sorption_kd = 0, initial_conc = 100, initial_biomass = 50, mu_max = 0, Ks = 50,
     biogas_yield = 1 / 2\<rparr>"

text \<open>
  The documented domain of the grid and the parameters, following the words of the
  specification (section 3): step sizes positive, at least two nodes and one time step, a
  non-negative duration, and the stated range of each coefficient.
\<close>

definition documented_domain :: "config \<Rightarrow> bool" where
  "documented_domain cfg \<longleftrightarrow>
     0 < dx \<and> 0 < dt \<and> 0 \<le> time_days cfg \<and>
     (case nx cfg of Inl e \<Rightarrow> False | Inr n \<Rightarrow> 2 \<le> n) \<and>
     (case t_steps cfg of Inl e \<Rightarrow> False | Inr n \<Rightarrow> 1 \<le> n) \<and>
     0 \<le> velocity cfg \<and> 0 \<le> dispersion cfg \<and> 0 \<le> rainfall_rate cfg \<and>
     0 \<le> infiltration_coeff cfg \<and> infiltration_coeff cfg \<le> 1 \<and>
     0 < liner_thickness cfg \<and> 0 < liner_perm cfg \<and> 0 \<le> sorption_kd cfg \<and>
     0 < mu_max cfg \<and> 0 < Ks cfg \<and> 0 < biogas_yield cfg"

text \<open>
  A configuration outside that domain only through its liner permeability of zero: two
  nodes, two time steps, the sidebar defaults elsewhere.
\<close>

definition leaky :: config where
  "leaky = \<lparr>length_m = 2, time_days = 2, velocity = 1 / 20, dispersion = 1 / 100,
     rainfall_rate = 10, infiltration_coeff = 1 / 2, liner_thickness = 1, liner_perm = 0,
     sorption_kd = 1, initial_conc = 100, initial_biomass = 50, mu_max = 1 / 10, Ks = 50,
     biogas_yield = 1 / 2\<rparr>"

text \<open>The arrays of its run.\<close>

definition leaky_run :: result where
  "leaky_run = \<lparr>x_grid = [0, 2], t_grid = [0, 2],
     final = \<lparr>C = [[100, 100], [205 / 2, 195 / 2]],
               B = [[50, 50], [105 / 2, 105 / 2]],
               gas = [0, 5 / 2]\<rparr>\<rparr>"

section \<open>One pass computes the node-by-node update\<close>

lemma map2_nth:
  "length xs = length ys \<Longrightarrow> map2 f xs ys = map (\<lambda>i. f (xs ! i) (ys ! i)) [0..<length xs]"
  by (rule nth_equalityI) simp_all

lemma step_short: "length Cp < 2 \<Longrightarrow> step cfg n_x leak Cp Bp = Inl ValueError"
  by (simp add: step_def np_gradient_def on_value_def)

lemma step_rows:
  assumes "2 \<le> length Cp" and "length Bp = length Cp" and "n_x = int (length Cp)"
  shows "step cfg n_x leak Cp Bp =
           Inr (map (conc_at cfg leak Cp Bp) [0..<length Cp],
                map (\<lambda>i. Bp ! i + growth_at cfg Cp Bp i * dt) [0..<length Cp],
                (\<Sum>i\<leftarrow>[0..<length Cp]. growth_at cfg Cp Bp i * dt * biogas_yield cfg))"
proof -
  let ?N = "length Cp"
  have g: "monod_v (divs Cp (1 + sorption_kd cfg)) Bp (mu_max cfg) (Ks cfg)
             = map (growth_at cfg Cp Bp) [0..<?N]"
    using assms(2) by (simp add: monod_v_def divs_def map2_nth growth_at_def)
  have c: "np_maximum (vsub (vadd (vsub (vadd (vsub Cp (muls (smul (velocity cfg) (map (gradient_at Cp dx) [0..<?N])) dt))
                          (muls (smul (dispersion cfg) (map (gradient_at (map (gradient_at Cp dx) [0..<?N]) dx) [0..<?N])) dt))
                    (muls (map (growth_at cfg Cp Bp) [0..<?N]) dt)) (muls ((replicate ?N 0)[0 := rain_input cfg * 1000]) dt))
                    ((replicate ?N 0)[?N - 1 := leak * Cp ! (?N - 1)])) 0
           = map (conc_at cfg leak Cp Bp) [0..<?N]"
    by (rule nth_equalityI)
       (auto simp: np_maximum_def vsub_def vadd_def muls_def smul_def conc_at_def nth_list_update)
  have b: "vadd Bp (muls (map (growth_at cfg Cp Bp) [0..<?N]) dt)
             = map (\<lambda>i. Bp ! i + growth_at cfg Cp Bp i * dt) [0..<?N]"
    using assms(2) by (intro nth_equalityI) (auto simp: vadd_def muls_def)
  have s: "sum_list (muls (muls (map (growth_at cfg Cp Bp) [0..<?N]) dt) (biogas_yield cfg))
             = (\<Sum>i\<leftarrow>[0..<?N]. growth_at cfg Cp Bp i * dt * biogas_yield cfg)"
    by (simp add: muls_def comp_def)
  have n: "nat (int ?N - 1) = ?N - 1" by simp
  have ne: "Cp \<noteq> []" using assms(1) by auto
  show ?thesis
    using assms ne c
    by (simp add: step_def np_gradient_def on_value_def np_zeros_def set_item_def get_item_def
        Let_def g b s n)
qed

lemma body_rows:
  assumes "shaped T N s" and "1 \<le> n" and "n < T" and "2 \<le> N" and "n_x = int N"
  shows "body cfg n_x leak n s = Inr (written cfg leak N n s)"
proof -
  have l: "length (C s ! (n - 1)) = N" "length (B s ! (n - 1)) = N"
    using assms(1-3) by (simp_all add: shaped_def)
  have cl: "2 \<le> length (C s ! (n - 1))"
    using l(1) assms(4) by simp
  have bl: "length (B s ! (n - 1)) = length (C s ! (n - 1))"
    using l by simp
  have nl: "n_x = int (length (C s ! (n - 1)))"
    using l(1) assms(5) by simp
  note st = step_rows [OF cl bl nl, of cfg leak, unfolded l(1)]
  show ?thesis
    unfolding body_def written_def st on_value_def by simp
qed

lemma body_short:
  assumes "shaped T N s" and "1 \<le> n" and "n < T" and "N < 2"
  shows "body cfg n_x leak n s = Inl ValueError"
proof -
  have "length (C s ! (n - 1)) = N"
    using assms(1-3) by (simp add: shaped_def)
  then show ?thesis
    using assms(4) by (simp add: body_def step_short on_value_def)
qed

lemma shaped_written:
  assumes "shaped T N s" and "n < T"
  shows "shaped T N (written cfg leak N n s)"
  using assms by (auto simp: shaped_def written_def nth_list_update)

lemma written_other:
  assumes "m \<noteq> n"
  shows "C (written cfg leak N n s) ! m = C s ! m"
    and "B (written cfg leak N n s) ! m = B s ! m"
    and "gas (written cfg leak N n s) ! m = gas s ! m"
  using assms by (simp_all add: written_def)

lemma written_follows:
  assumes "shaped T N s" and "1 \<le> n" and "n < T"
  shows "follows cfg leak N (written cfg leak N n s) n"
  using assms by (simp add: follows_def written_def shaped_def)

lemma loop_rows:
  assumes "shaped T N s" and "1 \<le> k" and "2 \<le> N" and "n_x = int N"
  shows "\<exists>s'. loop cfg n_x leak [k..<T] s = Inr s' \<and> shaped T N s' \<and>
           (\<forall>m<k. C s' ! m = C s ! m \<and> B s' ! m = B s ! m \<and> gas s' ! m = gas s ! m) \<and>
           (\<forall>n. k \<le> n \<and> n < T \<longrightarrow> follows cfg leak N s' n)"
  using assms
proof (induction "T - k" arbitrary: k s)
  case 0
  then show ?case by auto
next
  case (Suc d)
  let ?s1 = "written cfg leak N k s"
  from Suc.hyps(2) have kT: "k < T" by simp
  then have upt: "[k..<T] = k # [Suc k..<T]" by (simp add: upt_conv_Cons)
  have b: "body cfg n_x leak k s = Inr ?s1"
    using body_rows [OF Suc.prems(1,2) kT Suc.prems(3,4)] .
  have sh1: "shaped T N ?s1"
    using shaped_written [OF Suc.prems(1) kT] .
  have d: "d = T - Suc k" using Suc.hyps(2) by simp
  from Suc.hyps(1) [OF d sh1 _ Suc.prems(3,4)]
  obtain s' where s': "loop cfg n_x leak [Suc k..<T] ?s1 = Inr s'" "shaped T N s'"
    and keep: "\<forall>m<Suc k. C s' ! m = C ?s1 ! m \<and> B s' ! m = B ?s1 ! m \<and> gas s' ! m = gas ?s1 ! m"
    and fol: "\<forall>n. Suc k \<le> n \<and> n < T \<longrightarrow> follows cfg leak N s' n"
    by auto
  have run: "loop cfg n_x leak [k..<T] s = Inr s'"
    by (simp add: upt b s'(1) on_value_def)
  have old: "\<forall>m<k. C s' ! m = C s ! m \<and> B s' ! m = B s ! m \<and> gas s' ! m = gas s ! m"
    using keep by (simp add: written_other)
  have "follows cfg leak N ?s1 k"
    using written_follows [OF Suc.prems(1,2) kT] .
  moreover have "k - 1 < Suc k" "k < Suc k" by simp_all
  ultimately have "follows cfg leak N s' k"
    using keep by (simp add: follows_def)
  with fol have "\<forall>n. k \<le> n \<and> n < T \<longrightarrow> follows cfg leak N s' n"
    by (metis Suc_leI le_neq_implies_less)
  with run s'(2) old show ?case by blast
qed

lemma nx_value: "nx cfg = Inr (length_m cfg)"
  by (simp add: nx_def py_truediv_def dx_def on_value_def py_int_def)

lemma t_steps_value: "t_steps cfg = Inr (time_days cfg)"
  by (simp add: t_steps_def py_truediv_def dt_def on_value_def py_int_def)

lemma derive_negative_length: "length_m cfg < 0 \<Longrightarrow> derive cfg = Inl ValueError"
  by (simp add: derive_def nx_value on_value_def t_steps_value np_linspace_def)

lemma derive_negative_time:
  "0 \<le> length_m cfg \<Longrightarrow> time_days cfg < 0 \<Longrightarrow> derive cfg = Inl ValueError"
  by (simp add: derive_def nx_value on_value_def t_steps_value np_linspace_def)

lemma derive_zero_thickness:
  "0 \<le> length_m cfg \<Longrightarrow> 0 \<le> time_days cfg \<Longrightarrow> liner_thickness cfg = 0
     \<Longrightarrow> derive cfg = Inl ZeroDivisionError"
  by (simp add: derive_def nx_value on_value_def t_steps_value np_linspace_def
      liner_leakage_def py_truediv_def)

lemma derive_ok:
  assumes "0 \<le> length_m cfg" and "0 \<le> time_days cfg" and "liner_thickness cfg \<noteq> 0"
  shows "\<exists>xs ts. derive cfg = Inr (length_m cfg, time_days cfg, xs, ts, leak_of cfg)"
  using assms
  by (simp add: derive_def nx_value on_value_def t_steps_value np_linspace_def
      liner_leakage_def py_truediv_def leak_of_def)

lemma initialize_ok:
  "0 < n_t \<Longrightarrow> 0 \<le> n_x \<Longrightarrow> initialize cfg n_t n_x = Inr (initial cfg (nat n_t) (nat n_x))"
  by (simp add: initialize_def np_zeros2_def np_zeros_def set_row_def on_value_def initial_def)

lemma initialize_no_rows: "0 \<le> n_x \<Longrightarrow> initialize cfg 0 n_x = Inl IndexError"
  by (simp add: initialize_def np_zeros2_def set_row_def on_value_def)

lemma shaped_initial: "shaped T N (initial cfg T N)"
  by (auto simp: shaped_def initial_def nth_list_update)

lemma initial_rows:
  assumes "0 < T"
  shows "C (initial cfg T N) ! 0 = replicate N (initial_conc cfg)"
    and "B (initial cfg T N) ! 0 = replicate N (initial_biomass cfg)"
    and "gas (initial cfg T N) ! 0 = 0"
  using assms by (simp_all add: initial_def)

lemma loop_short:
  assumes "shaped T N s" and "N < 2" and "2 \<le> T"
  shows "loop cfg n_x leak [1..<T] s = Inl ValueError"
proof -
  have "[1..<T] = 1 # [Suc 1..<T]"
    using assms(3) by (intro upt_conv_Cons) simp
  moreover have "body cfg n_x leak 1 s = Inl ValueError"
    using body_short [OF assms(1) _ _ assms(2), of 1] assms(3) by simp
  ultimately show ?thesis by (simp add: on_value_def)
qed

lemma simulate_ok:
  assumes "0 \<le> length_m cfg" and "1 \<le> time_days cfg" and "liner_thickness cfg \<noteq> 0"
    and "2 \<le> time_days cfg \<longrightarrow> 2 \<le> length_m cfg"
  shows "\<exists>res. simulate cfg = Inr res \<and> traced cfg res"
proof -
  let ?T = "nat (time_days cfg)" and ?N = "nat (length_m cfg)"
  let ?s0 = "initial cfg ?T ?N"
  from derive_ok [OF assms(1) _ assms(3)] assms(2)
  obtain xs ts where d: "derive cfg = Inr (length_m cfg, time_days cfg, xs, ts, leak_of cfg)"
    by auto
  have i: "initialize cfg (time_days cfg) (length_m cfg) = Inr ?s0"
    using initialize_ok [of "time_days cfg" "length_m cfg" cfg] assms(1,2) by simp
  have T: "0 < ?T" using assms(2) by simp
  have "\<exists>s'. loop cfg (length_m cfg) (leak_of cfg) [1..<?T] ?s0 = Inr s' \<and> shaped ?T ?N s' \<and>
           (\<forall>m<1. C s' ! m = C ?s0 ! m \<and> B s' ! m = B ?s0 ! m \<and> gas s' ! m = gas ?s0 ! m) \<and>
           (\<forall>n. 1 \<le> n \<and> n < ?T \<longrightarrow> follows cfg (leak_of cfg) ?N s' n)"
  proof (cases "2 \<le> ?N")
    case True
    show ?thesis
      by (rule loop_rows [OF shaped_initial _ True]) (use assms(1) in simp_all)
  next
    case False
    with assms(4) have "?T = 1" using assms(2) by auto
    then show ?thesis
      using shaped_initial [of 1 ?N cfg] by simp
  qed
  then obtain s' where l: "loop cfg (length_m cfg) (leak_of cfg) [1..<?T] ?s0 = Inr s'"
    and sh: "shaped ?T ?N s'"
    and z: "C s' ! 0 = C ?s0 ! 0" "B s' ! 0 = B ?s0 ! 0" "gas s' ! 0 = gas ?s0 ! 0"
    and f: "\<forall>n. 1 \<le> n \<and> n < ?T \<longrightarrow> follows cfg (leak_of cfg) ?N s' n"
    by auto
  have "simulate cfg = Inr \<lparr>x_grid = xs, t_grid = ts, final = s'\<rparr>"
    using l by (simp add: simulate_def d i on_value_def)
  moreover have "traced cfg \<lparr>x_grid = xs, t_grid = ts, final = s'\<rparr>"
    using sh z f initial_rows [OF T, of cfg ?N] by (simp add: traced_def)
  ultimately show ?thesis by blast
qed

lemma simulate_negative_length: "length_m cfg < 0 \<Longrightarrow> simulate cfg = Inl ValueError"
  by (simp add: simulate_def derive_negative_length on_value_def)

lemma simulate_negative_time:
  "0 \<le> length_m cfg \<Longrightarrow> time_days cfg < 0 \<Longrightarrow> simulate cfg = Inl ValueError"
  by (simp add: simulate_def derive_negative_time on_value_def)

lemma simulate_zero_thickness:
  "0 \<le> length_m cfg \<Longrightarrow> 0 \<le> time_days cfg \<Longrightarrow> liner_thickness cfg = 0
     \<Longrightarrow> simulate cfg = Inl ZeroDivisionError"
  by (simp add: simulate_def derive_zero_thickness on_value_def)

lemma simulate_no_rows:
  assumes "0 \<le> length_m cfg" and "time_days cfg = 0" and "liner_thickness cfg \<noteq> 0"
  shows "simulate cfg = Inl IndexError"
proof -
  from derive_ok [OF assms(1) _ assms(3)] assms(2)
  obtain xs ts where "derive cfg = Inr (length_m cfg, 0, xs, ts, leak_of cfg)"
    by auto
  then show ?thesis
    using assms(1) by (simp add: simulate_def initialize_no_rows on_value_def)
qed

lemma simulate_short_grid:
  assumes "0 \<le> length_m cfg" and "length_m cfg < 2" and "2 \<le> time_days cfg"
    and "liner_thickness cfg \<noteq> 0"
  shows "simulate cfg = Inl ValueError"
proof -
  let ?T = "nat (time_days cfg)" and ?N = "nat (length_m cfg)"
  from derive_ok [OF assms(1) _ assms(4)] assms(3)
  obtain xs ts where d: "derive cfg = Inr (length_m cfg, time_days cfg, xs, ts, leak_of cfg)"
    by auto
  have i: "initialize cfg (time_days cfg) (length_m cfg) = Inr (initial cfg ?T ?N)"
    using initialize_ok [of "time_days cfg" "length_m cfg" cfg] assms(1,3) by simp
  have "loop cfg (length_m cfg) (leak_of cfg) [1..<?T] (initial cfg ?T ?N) = Inl ValueError"
    by (rule loop_short [OF shaped_initial]) (use assms(2,3) in simp_all)
  then show ?thesis
    by (simp add: simulate_def d i on_value_def)
qed

lemma simulate_Inr:
  assumes "simulate cfg = Inr res"
  shows "traced cfg res" and "0 \<le> length_m cfg" and "1 \<le> time_days cfg"
    and "liner_thickness cfg \<noteq> 0" and "2 \<le> time_days cfg \<longrightarrow> 2 \<le> length_m cfg"
proof -
  show a: "0 \<le> length_m cfg"
    using assms simulate_negative_length [of cfg] by (cases "length_m cfg < 0") simp_all
  have b: "0 \<le> time_days cfg"
    using assms a simulate_negative_time [of cfg] by (cases "time_days cfg < 0") simp_all
  show c: "liner_thickness cfg \<noteq> 0"
    using assms a b simulate_zero_thickness [of cfg] by auto
  show d: "1 \<le> time_days cfg"
    using assms a b c simulate_no_rows [of cfg] by (cases "time_days cfg = 0") simp_all
  show e: "2 \<le> time_days cfg \<longrightarrow> 2 \<le> length_m cfg"
    using assms a c simulate_short_grid [of cfg] by (cases "length_m cfg < 2") auto
  from simulate_ok [OF a d c e] assms show "traced cfg res" by auto
qed

section \<open>Monod kinetics\<close>






section \<open>Invariants of a finished run\<close>

lemma traced_rows:
  assumes "traced cfg res" and "1 \<le> n" and "n < nat (time_days cfg)" and "i < nat (length_m cfg)"
  shows "C (final res) ! n ! i =
           conc_at cfg (leak_of cfg) (C (final res) ! (n - 1)) (B (final res) ! (n - 1)) i"
    and "B (final res) ! n ! i = B (final res) ! (n - 1) ! i
           + growth_at cfg (C (final res) ! (n - 1)) (B (final res) ! (n - 1)) i * dt"
  using assms by (simp_all add: traced_def follows_def Let_def)

lemma traced_gas:
  assumes "traced cfg res" and "1 \<le> n" and "n < nat (time_days cfg)"
  shows "gas (final res) ! n = gas (final res) ! (n - 1) +
           (\<Sum>i\<leftarrow>[0..<nat (length_m cfg)].
              growth_at cfg (C (final res) ! (n - 1)) (B (final res) ! (n - 1)) i * dt
                * biogas_yield cfg)"
  using assms by (simp add: traced_def follows_def Let_def)







lemma simulate_demo: "simulate demo = Inr demo_run"
  by code_simp








section \<open>The gas series and the biomass gained\<close>

lemma traced_biomass_gain:
  assumes "traced cfg res" and "n < nat (time_days cfg)"
  shows "gas (final res) ! n =
           biogas_yield cfg *
             (\<Sum>i\<leftarrow>[0..<nat (length_m cfg)]. B (final res) ! n ! i - B (final res) ! 0 ! i)"
  using assms(2)
proof (induction n)
  case 0
  then show ?case using assms(1) by (simp add: traced_def Let_def)
next
  case (Suc n)
  let ?N = "nat (length_m cfg)"
  let ?g = "\<lambda>i. growth_at cfg (C (final res) ! n) (B (final res) ! n) i * dt"
  from Suc have n: "n < nat (time_days cfg)" by simp
  have b: "\<And>i. i < ?N \<Longrightarrow> B (final res) ! Suc n ! i = B (final res) ! n ! i + ?g i"
    using traced_rows(2) [OF assms(1) _ Suc.prems] by simp
  have "(\<Sum>i\<leftarrow>[0..<?N]. B (final res) ! Suc n ! i - B (final res) ! 0 ! i)
          = (\<Sum>i\<leftarrow>[0..<?N]. (B (final res) ! n ! i - B (final res) ! 0 ! i) + ?g i)"
    by (rule arg_cong [where f = sum_list], rule map_cong) (simp_all add: b)
  also have "\<dots> = (\<Sum>i\<leftarrow>[0..<?N]. B (final res) ! n ! i - B (final res) ! 0 ! i)
                   + (\<Sum>i\<leftarrow>[0..<?N]. ?g i)"
    by (simp add: sum_list_addf)
  finally have s: "(\<Sum>i\<leftarrow>[0..<?N]. B (final res) ! Suc n ! i - B (final res) ! 0 ! i)
      = (\<Sum>i\<leftarrow>[0..<?N]. B (final res) ! n ! i - B (final res) ! 0 ! i) + (\<Sum>i\<leftarrow>[0..<?N]. ?g i)" .
  have y: "(\<Sum>i\<leftarrow>[0..<?N]. ?g i * biogas_yield cfg) = biogas_yield cfg * (\<Sum>i\<leftarrow>[0..<?N]. ?g i)"
    by (simp add: sum_list_const_mult mult.commute)
  have "gas (final res) ! Suc n = gas (final res) ! n + (\<Sum>i\<leftarrow>[0..<?N]. ?g i * biogas_yield cfg)"
    using traced_gas [OF assms(1) _ Suc.prems] by simp
  then show ?case
    by (simp add: Suc.IH [OF n] s y distrib_left)
qed

text \<open>
  C9. At every time step the cumulative gas equals the biogas yield times the biomass
  gained since the start, summed over the depth nodes.
\<close>

theorem gas_is_yield_times_biomass_gain:
  assumes "simulate cfg = Inr res" and "t_steps cfg = Inr n_t" and "nx cfg = Inr n_x"
    and "int n < n_t"
  shows "gas (final res) ! n =
           biogas_yield cfg *
             (\<Sum>i\<leftarrow>[0..<nat n_x]. B (final res) ! n ! i - B (final res) ! 0 ! i)"
proof -
  have "n < nat (time_days cfg)" and "n_x = length_m cfg"
    using assms(2-4) by (auto simp: t_steps_value nx_value)
  then show ?thesis
    using traced_biomass_gain [OF simulate_Inr(1) [OF assms(1)]] by simp
qed

theorem gas_is_yield_times_biomass_gain_witness:
  "simulate demo = Inr demo_run \<and> t_steps demo = Inr 3 \<and> nx demo = Inr 3 \<and> int 2 < 3 \<and>
   gas (final demo_run) ! 2 =
     biogas_yield demo *
       (\<Sum>i\<leftarrow>[0..<nat 3]. B (final demo_run) ! 2 ! i - B (final demo_run) ! 0 ! i)"
proof -
  have t: "t_steps demo = Inr 3" and x: "nx demo = Inr 3"
    by (simp_all add: t_steps_value nx_value demo_def)
  have "gas (final demo_run) ! 2 =
     biogas_yield demo *
       (\<Sum>i\<leftarrow>[0..<nat 3]. B (final demo_run) ! 2 ! i - B (final demo_run) ! 0 ! i)"
    by (rule gas_is_yield_times_biomass_gain [OF simulate_demo t x]) simp
  with simulate_demo t x show ?thesis by simp
qed

section \<open>The update of one pass\<close>





lemma step_Inr_rows:
  assumes "step cfg n_x leak Cp Bp = Inr (Cn, Bn, g)"
    and "length Bp = length Cp" and "n_x = int (length Cp)"
  shows "Cn = map (conc_at cfg leak Cp Bp) [0..<length Cp]"
    and "Bn = map (\<lambda>i. Bp ! i + growth_at cfg Cp Bp i * dt) [0..<length Cp]"
    and "g = (\<Sum>i\<leftarrow>[0..<length Cp]. growth_at cfg Cp Bp i * dt * biogas_yield cfg)"
    and "2 \<le> length Cp"
proof -
  show l: "2 \<le> length Cp"
    using assms(1) step_short [of Cp cfg n_x leak Bp] by (cases "length Cp < 2") simp_all
  from step_rows [OF l assms(2,3), of cfg leak] assms(1)
  show "Cn = map (conc_at cfg leak Cp Bp) [0..<length Cp]"
    and "Bn = map (\<lambda>i. Bp ! i + growth_at cfg Cp Bp i * dt) [0..<length Cp]"
    and "g = (\<Sum>i\<leftarrow>[0..<length Cp]. growth_at cfg Cp Bp i * dt * biogas_yield cfg)"
    by simp_all
qed

lemma growth_at_rain:
  "growth_at (cfg\<lparr>rainfall_rate := r, infiltration_coeff := k\<rparr>) Cp Bp i = growth_at cfg Cp Bp i"
  by (simp add: growth_at_def)

lemma growth_at_liner:
  "growth_at (cfg\<lparr>liner_perm := p, liner_thickness := th\<rparr>) Cp Bp i = growth_at cfg Cp Bp i"
  by (simp add: growth_at_def)

lemma conc_at_rain:
  "i \<noteq> 0 \<Longrightarrow>
   conc_at (cfg\<lparr>rainfall_rate := r, infiltration_coeff := k\<rparr>) leak Cp Bp i
     = conc_at cfg leak Cp Bp i"
  by (simp add: conc_at_def growth_at_def)

lemma conc_at_liner:
  "i \<noteq> length Cp - 1 \<Longrightarrow>
   conc_at (cfg\<lparr>liner_perm := p, liner_thickness := th\<rparr>) leak' Cp Bp i
     = conc_at cfg leak Cp Bp i"
  by (simp add: conc_at_def growth_at_def rain_input_def)

text \<open>
  C10. One pass is local in its boundary parameters. From the same previous rows, a pass
  with another rainfall rate or infiltration coefficient gives a concentration row that
  differs at node 0 at most, and a pass with another liner permeability or thickness (and
  so another leakage coefficient) gives one that differs at the last node at most; the
  biomass row and the gas produced are the same in both cases. The previous rows have the
  grid's length, as every row of the arrays has.
\<close>

theorem boundary_parameters_local:
  assumes "step cfg n_x leak Cp Bp = Inr (Cn, Bn, g)"
    and "length Bp = length Cp" and "n_x = int (length Cp)"
  shows "(\<forall>r k Cn' Bn' g'.
            step (cfg\<lparr>rainfall_rate := r, infiltration_coeff := k\<rparr>) n_x leak Cp Bp
              = Inr (Cn', Bn', g') \<longrightarrow>
            Bn' = Bn \<and> g' = g \<and> length Cn' = length Cn \<and>
            (\<forall>i<length Cn. i \<noteq> 0 \<longrightarrow> Cn' ! i = Cn ! i)) \<and>
         (\<forall>p th leak' Cn' Bn' g'.
            step (cfg\<lparr>liner_perm := p, liner_thickness := th\<rparr>) n_x leak' Cp Bp
              = Inr (Cn', Bn', g') \<longrightarrow>
            Bn' = Bn \<and> g' = g \<and> length Cn' = length Cn \<and>
            (\<forall>i<length Cn. i \<noteq> length Cn - 1 \<longrightarrow> Cn' ! i = Cn ! i))"
proof (intro conjI allI impI)
  note a = step_Inr_rows [OF assms]
  have lc: "length Cn = length Cp" by (simp add: a(1))
  {
    fix r k Cn' Bn' g'
    assume "step (cfg\<lparr>rainfall_rate := r, infiltration_coeff := k\<rparr>) n_x leak Cp Bp
              = Inr (Cn', Bn', g')"
    note b = step_Inr_rows [OF this assms(2,3)]
    show "Bn' = Bn" by (simp add: a(2) b(2) growth_at_rain)
    show "g' = g" by (simp add: a(3) b(3) growth_at_rain)
    show "length Cn' = length Cn" by (simp add: a(1) b(1))
    fix i
    assume "i < length Cn" and "i \<noteq> 0"
    then show "Cn' ! i = Cn ! i"
      by (simp add: a(1) b(1) conc_at_rain)
  }
  {
    fix p th leak' Cn' Bn' g'
    assume "step (cfg\<lparr>liner_perm := p, liner_thickness := th\<rparr>) n_x leak' Cp Bp
              = Inr (Cn', Bn', g')"
    note b = step_Inr_rows [OF this assms(2,3)]
    show "Bn' = Bn" by (simp add: a(2) b(2) growth_at_liner)
    show "g' = g" by (simp add: a(3) b(3) growth_at_liner)
    show "length Cn' = length Cn" by (simp add: a(1) b(1))
    fix i
    assume "i < length Cn" and "i \<noteq> length Cn - 1"
    then show "Cn' ! i = Cn ! i"
      unfolding lc by (simp add: a(1) b(1) conc_at_liner [where leak = leak and leak' = leak'])
  }
qed

lemma step_demo:
  "step demo 3 (54 / 625) [100, 100, 100] [50, 50, 50]
     = Inr ([205 / 2, 195 / 2, 4443 / 50], [105 / 2, 105 / 2, 105 / 2], 15 / 4)"
  by code_simp

lemma step_demo_rain:
  "step (demo\<lparr>rainfall_rate := 20, infiltration_coeff := 1 / 2\<rparr>) 3 (54 / 625)
       [100, 100, 100] [50, 50, 50]
     = Inr ([215 / 2, 195 / 2, 4443 / 50], [105 / 2, 105 / 2, 105 / 2], 15 / 4)"
  by code_simp

lemma step_demo_liner:
  "step (demo\<lparr>liner_perm := 2 / 1000000, liner_thickness := 1\<rparr>) 3 (108 / 625)
       [100, 100, 100] [50, 50, 50]
     = Inr ([205 / 2, 195 / 2, 4011 / 50], [105 / 2, 105 / 2, 105 / 2], 15 / 4)"
  by code_simp

lemma leak_demo:
  "liner_leakage demo = Inr (54 / 625)"
  "liner_leakage (demo\<lparr>liner_perm := 2 / 1000000, liner_thickness := 1\<rparr>) = Inr (108 / 625)"
  by (simp_all add: liner_leakage_def py_truediv_def on_value_def demo_def dt_def)

theorem boundary_parameters_local_witness:
  "step demo 3 (54 / 625) [100, 100, 100] [50, 50, 50]
     = Inr ([205 / 2, 195 / 2, 4443 / 50], [105 / 2, 105 / 2, 105 / 2], 15 / 4) \<and>
   length [50, 50, 50 :: real] = length [100, 100, 100 :: real] \<and>
   (3::int) = int (length [100, 100, 100 :: real]) \<and>
   step (demo\<lparr>rainfall_rate := 20, infiltration_coeff := 1 / 2\<rparr>) 3 (54 / 625)
       [100, 100, 100] [50, 50, 50]
     = Inr ([215 / 2, 195 / 2, 4443 / 50], [105 / 2, 105 / 2, 105 / 2], 15 / 4) \<and>
   (1::nat) < length [205 / 2, 195 / 2, 4443 / 50 :: real] \<and> (1::nat) \<noteq> 0 \<and>
   [215 / 2, 195 / 2, 4443 / 50 :: real] ! 1 = [205 / 2, 195 / 2, 4443 / 50] ! 1 \<and>
   liner_leakage demo = Inr (54 / 625) \<and>
   liner_leakage (demo\<lparr>liner_perm := 2 / 1000000, liner_thickness := 1\<rparr>) = Inr (108 / 625) \<and>
   step (demo\<lparr>liner_perm := 2 / 1000000, liner_thickness := 1\<rparr>) 3 (108 / 625)
       [100, 100, 100] [50, 50, 50]
     = Inr ([205 / 2, 195 / 2, 4011 / 50], [105 / 2, 105 / 2, 105 / 2], 15 / 4) \<and>
   (1::nat) \<noteq> length [205 / 2, 195 / 2, 4443 / 50 :: real] - 1 \<and>
   [205 / 2, 195 / 2, 4011 / 50 :: real] ! 1 = [205 / 2, 195 / 2, 4443 / 50] ! 1"
proof -
  have l: "length [50, 50, 50 :: real] = length [100, 100, 100 :: real]"
    and n: "(3::int) = int (length [100, 100, 100 :: real])"
    and i: "(1::nat) < length [205 / 2, 195 / 2, 4443 / 50 :: real]" "(1::nat) \<noteq> 0"
      "(1::nat) \<noteq> length [205 / 2, 195 / 2, 4443 / 50 :: real] - 1"
    by simp_all
  note k = boundary_parameters_local [OF step_demo l n]
  from k [THEN conjunct1, rule_format, OF step_demo_rain]
  have "\<forall>i<length [205 / 2, 195 / 2, 4443 / 50 :: real]. i \<noteq> 0 \<longrightarrow>
          [215 / 2, 195 / 2, 4443 / 50 :: real] ! i = [205 / 2, 195 / 2, 4443 / 50] ! i"
    by blast
  from this [rule_format, OF i(1,2)]
  have r: "[215 / 2, 195 / 2, 4443 / 50 :: real] ! 1 = [205 / 2, 195 / 2, 4443 / 50] ! 1" .
  from k [THEN conjunct2, rule_format, OF step_demo_liner]
  have "\<forall>i<length [205 / 2, 195 / 2, 4443 / 50 :: real].
          i \<noteq> length [205 / 2, 195 / 2, 4443 / 50 :: real] - 1 \<longrightarrow>
          [205 / 2, 195 / 2, 4011 / 50 :: real] ! i = [205 / 2, 195 / 2, 4443 / 50] ! i"
    by blast
  from this [rule_format, OF i(1,3)]
  have p: "[205 / 2, 195 / 2, 4011 / 50 :: real] ! 1 = [205 / 2, 195 / 2, 4443 / 50] ! 1" .
  show ?thesis
    by (intro conjI step_demo l n step_demo_rain i r leak_demo step_demo_liner p)
qed

section \<open>The scenario of the specification\<close>

lemma gradient_at_uniform:
  assumes "2 \<le> N" and "i < N"
  shows "gradient_at (replicate N c) h i = 0"
  using assms by (simp add: gradient_at_def)

lemma gradient_uniform:
  assumes "2 \<le> N"
  shows "map (gradient_at (replicate N c) h) [0..<N] = replicate N 0"
  by (rule nth_equalityI) (simp_all add: gradient_at_uniform [OF assms])

lemma conc_at_uniform:
  assumes "2 \<le> N" and "i < N" and "mu_max cfg = 0" and "rainfall_rate cfg = 0" and "0 \<le> c"
  shows "conc_at cfg 0 (replicate N c) (replicate N b) i = c"
  using assms
  by (simp add: conc_at_def growth_at_def monod_def rain_input_def gradient_uniform
      gradient_at_uniform)

lemma growth_at_idle: "mu_max cfg = 0 \<Longrightarrow> growth_at cfg Cp Bp i = 0"
  by (simp add: growth_at_def monod_def)

lemma leak_of_sealed: "liner_perm cfg = 0 \<Longrightarrow> leak_of cfg = 0"
  by (simp add: leak_of_def)

lemma uniform_rows:
  assumes "traced cfg res" and "mu_max cfg = 0" and "rainfall_rate cfg = 0"
    and "liner_perm cfg = 0" and "0 \<le> initial_conc cfg"
    and "2 \<le> time_days cfg \<longrightarrow> 2 \<le> length_m cfg"
    and "n < nat (time_days cfg)"
  shows "C (final res) ! n = replicate (nat (length_m cfg)) (initial_conc cfg) \<and>
         B (final res) ! n = replicate (nat (length_m cfg)) (initial_biomass cfg) \<and>
         gas (final res) ! n = 0"
  using assms(7)
proof (induction n)
  case 0
  then show ?case using assms(1) by (simp add: traced_def Let_def)
next
  case (Suc n)
  let ?N = "nat (length_m cfg)"
  from Suc.prems have n: "n < nat (time_days cfg)" by simp
  from Suc.prems have "2 \<le> time_days cfg" by linarith
  with assms(6) have N: "2 \<le> ?N" by simp
  note ih = Suc.IH [OF n]
  have f: "follows cfg 0 ?N (final res) (Suc n)"
    using assms(1) Suc.prems leak_of_sealed [OF assms(4)] by (simp add: traced_def Let_def)
  have c: "C (final res) ! Suc n = replicate ?N (initial_conc cfg)"
    using f ih
    by (intro nth_equalityI)
       (simp_all add: follows_def conc_at_uniform [OF N _ assms(2,3,5)])
  have b: "B (final res) ! Suc n = replicate ?N (initial_biomass cfg)"
    using f ih
    by (intro nth_equalityI) (simp_all add: follows_def growth_at_idle [OF assms(2)])
  have g: "gas (final res) ! Suc n = 0"
    using f ih by (simp add: follows_def growth_at_idle [OF assms(2)])
  from c b g show ?case by simp
qed

text \<open>
  C5. In the scenario with length 10, duration 5, velocity 0.05, dispersion 0.01, no
  rainfall, liner permeability 0, \<open>Kd = 0\<close>, \<open>mu_max = 0\<close>, initial concentration 100 and
  initial biomass 50, the grid has 10 nodes and 5 time steps, the run finishes, the
  concentration is 100 at every node of all 5 rows, the biomass is 50 throughout and the
  gas series is zero. The scenario leaves liner thickness and \<open>Ks\<close> open: the thickness
  must not be zero (line 33 divides by it) and \<open>Ks\<close> must not be \<open>-100\<close> (the Monod term
  divides by \<open>Ks + 100\<close>).
\<close>

theorem concrete_scenario:
  assumes "length_m cfg = 10" and "time_days cfg = 5"
    and "velocity cfg = 1 / 20" and "dispersion cfg = 1 / 100"
    and "rainfall_rate cfg = 0" and "liner_perm cfg = 0"
    and "sorption_kd cfg = 0" and "mu_max cfg = 0"
    and "initial_conc cfg = 100" and "initial_biomass cfg = 50"
    and "liner_thickness cfg \<noteq> 0" and "Ks cfg + 100 \<noteq> 0"
  shows "nx cfg = Inr 10 \<and> t_steps cfg = Inr 5 \<and>
         (\<exists>res. simulate cfg = Inr res \<and>
            C (final res) = replicate 5 (replicate 10 100) \<and>
            B (final res) = replicate 5 (replicate 10 50) \<and>
            gas (final res) = replicate 5 0)"
proof -
  have e: "2 \<le> time_days cfg \<longrightarrow> 2 \<le> length_m cfg"
    using assms(1) by simp
  from simulate_ok [OF _ _ assms(11) e] assms(1,2)
  obtain res where r: "simulate cfg = Inr res" and tr: "traced cfg res"
    by auto
  have c0: "0 \<le> initial_conc cfg" using assms(9) by simp
  note u = uniform_rows [OF tr assms(8,5,6) c0 e]
  have sh: "length (C (final res)) = 5" "length (B (final res)) = 5" "length (gas (final res)) = 5"
    using tr assms(2) by (simp_all add: traced_def shaped_def Let_def)
  have "C (final res) = replicate 5 (replicate 10 100)"
    using u assms(1,2,9) by (intro nth_equalityI) (simp_all add: sh)
  moreover have "B (final res) = replicate 5 (replicate 10 50)"
    using u assms(1,2,10) by (intro nth_equalityI) (simp_all add: sh)
  moreover have "gas (final res) = replicate 5 0"
    using u assms(2) by (intro nth_equalityI) (simp_all add: sh)
  ultimately show ?thesis
    using r assms(1,2) by (auto simp: nx_value t_steps_value)
qed

theorem concrete_scenario_witness:
  "length_m scenario = 10 \<and> time_days scenario = 5 \<and> velocity scenario = 1 / 20 \<and>
   dispersion scenario = 1 / 100 \<and> rainfall_rate scenario = 0 \<and> liner_perm scenario = 0 \<and>
   sorption_kd scenario = 0 \<and> mu_max scenario = 0 \<and> initial_conc scenario = 100 \<and>
   initial_biomass scenario = 50 \<and> liner_thickness scenario \<noteq> 0 \<and> Ks scenario + 100 \<noteq> 0 \<and>
   nx scenario = Inr 10 \<and> t_steps scenario = Inr 5 \<and>
   (\<exists>res. simulate scenario = Inr res \<and>
      C (final res) = replicate 5 (replicate 10 100) \<and>
      B (final res) = replicate 5 (replicate 10 50) \<and>
      gas (final res) = replicate 5 0)"
proof -
  have h: "length_m scenario = 10" "time_days scenario = 5" "velocity scenario = 1 / 20"
    "dispersion scenario = 1 / 100" "rainfall_rate scenario = 0" "liner_perm scenario = 0"
    "sorption_kd scenario = 0" "mu_max scenario = 0" "initial_conc scenario = 100"
    "initial_biomass scenario = 50" "liner_thickness scenario \<noteq> 0" "Ks scenario + 100 \<noteq> 0"
    by (simp_all add: scenario_def)
  note k = concrete_scenario [OF h]
  show ?thesis
    by (intro conjI h k [THEN conjunct1] k [THEN conjunct2, THEN conjunct1]
        k [THEN conjunct2, THEN conjunct2])
qed

section \<open>Failure modes\<close>

lemma simulate_leaky: "simulate leaky = Inr leaky_run"
  by code_simp

lemma derive_leaky: "derive leaky = Inr (2, 2, [0, 2], [0, 2], 0)"
  by code_simp

lemma derive_Inl_iff:
  "derive cfg = Inl e \<longleftrightarrow>
     (length_m cfg < 0 \<or> time_days cfg < 0) \<and> e = ValueError \<or>
     0 \<le> length_m cfg \<and> 0 \<le> time_days cfg \<and> liner_thickness cfg = 0 \<and> e = ZeroDivisionError"
proof (cases "length_m cfg < 0")
  case True
  then show ?thesis by (auto simp: derive_negative_length)
next
  case l: False
  show ?thesis
  proof (cases "time_days cfg < 0")
    case True
    with l show ?thesis by (auto simp: derive_negative_time)
  next
    case t: False
    show ?thesis
    proof (cases "liner_thickness cfg = 0")
      case True
      with l t show ?thesis by (auto simp: derive_zero_thickness)
    next
      case False
      with l t derive_ok [of cfg] show ?thesis by auto
    qed
  qed
qed

lemma simulate_derive_Inl: "derive cfg = Inl e \<Longrightarrow> simulate cfg = Inl e"
  by (simp add: simulate_def on_value_def)

text \<open>
  C7, as the specification states it, fails: the configuration above is outside the
  documented domain, and the script derives its grid, allocates and returns the arrays.
\<close>

theorem fails_fast_counterexample:
  "\<not> documented_domain leaky \<and> derive leaky = Inr (2, 2, [0, 2], [0, 2], 0) \<and>
   simulate leaky = Inr leaky_run"
proof -
  have "\<not> documented_domain leaky"
    by (simp add: documented_domain_def leaky_def)
  with derive_leaky simulate_leaky show ?thesis by simp
qed

text \<open>
  C7, amended. The script checks no parameter against its documented domain. Before any
  state array is allocated it raises exactly when the length or the duration is negative
  (\<open>ValueError\<close> from \<open>np.linspace\<close>) or the liner thickness is zero (\<open>ZeroDivisionError\<close>),
  and then the run ends with that error. With at least two nodes, at least one time step
  and a liner thickness other than zero it returns a result, whatever the other parameters
  are. A returned result is never partial: it holds every row of the arrays.
\<close>

theorem failure_modes:
  "(derive cfg = Inl e \<longleftrightarrow>
      (length_m cfg < 0 \<or> time_days cfg < 0) \<and> e = ValueError \<or>
      0 \<le> length_m cfg \<and> 0 \<le> time_days cfg \<and> liner_thickness cfg = 0 \<and>
        e = ZeroDivisionError) \<and>
   (derive cfg = Inl e \<longrightarrow> simulate cfg = Inl e) \<and>
   (2 \<le> length_m cfg \<and> 1 \<le> time_days cfg \<and> liner_thickness cfg \<noteq> 0 \<longrightarrow>
      (\<exists>res. simulate cfg = Inr res)) \<and>
   (\<forall>res. simulate cfg = Inr res \<longrightarrow> traced cfg res)"
proof (intro conjI impI allI)
  show "derive cfg = Inl e \<longleftrightarrow>
      (length_m cfg < 0 \<or> time_days cfg < 0) \<and> e = ValueError \<or>
      0 \<le> length_m cfg \<and> 0 \<le> time_days cfg \<and> liner_thickness cfg = 0 \<and>
        e = ZeroDivisionError"
    by (rule derive_Inl_iff)
next
  assume "derive cfg = Inl e"
  then show "simulate cfg = Inl e" by (rule simulate_derive_Inl)
next
  assume "2 \<le> length_m cfg \<and> 1 \<le> time_days cfg \<and> liner_thickness cfg \<noteq> 0"
  then show "\<exists>res. simulate cfg = Inr res"
    using simulate_ok [of cfg] by auto
next
  fix res
  assume "simulate cfg = Inr res"
  then show "traced cfg res" by (rule simulate_Inr(1))
qed

theorem failure_modes_witness:
  "0 \<le> length_m (leaky\<lparr>liner_thickness := 0\<rparr>) \<and> 0 \<le> time_days (leaky\<lparr>liner_thickness := 0\<rparr>) \<and>
   liner_thickness (leaky\<lparr>liner_thickness := 0\<rparr>) = 0 \<and>
   derive (leaky\<lparr>liner_thickness := 0\<rparr>) = Inl ZeroDivisionError \<and>
   simulate (leaky\<lparr>liner_thickness := 0\<rparr>) = Inl ZeroDivisionError \<and>
   2 \<le> length_m leaky \<and> 1 \<le> time_days leaky \<and> liner_thickness leaky \<noteq> 0 \<and>
   (\<exists>res. simulate leaky = Inr res) \<and>
   simulate leaky = Inr leaky_run \<and> traced leaky leaky_run"
proof -
  note z = failure_modes [of "leaky\<lparr>liner_thickness := 0\<rparr>" ZeroDivisionError]
  note k = failure_modes [of leaky ZeroDivisionError]
  have a: "0 \<le> length_m (leaky\<lparr>liner_thickness := 0\<rparr>)"
    "0 \<le> time_days (leaky\<lparr>liner_thickness := 0\<rparr>)"
    "liner_thickness (leaky\<lparr>liner_thickness := 0\<rparr>) = 0"
    and b: "2 \<le> length_m leaky" "1 \<le> time_days leaky" "liner_thickness leaky \<noteq> 0"
    by (simp_all add: leaky_def)
  from z a have d: "derive (leaky\<lparr>liner_thickness := 0\<rparr>) = Inl ZeroDivisionError"
    by blast
  with z have s: "simulate (leaky\<lparr>liner_thickness := 0\<rparr>) = Inl ZeroDivisionError"
    by blast
  from k b have e: "\<exists>res. simulate leaky = Inr res" by blast
  from k simulate_leaky have t: "traced leaky leaky_run" by blast
  show ?thesis
    by (intro conjI a d s b e simulate_leaky t)
qed

end
